theory Spec2Isabelle
  imports Complex_Main
begin

section \<open>Python values met by the integration\<close>

text \<open>
  The integration lives in \<^verbatim>\<open>custom_components/enpal/sensor.py\<close>. It reads the
  column \<^verbatim>\<open>_value\<close> of a Flux record, which the database client delivers as a
  Python object, and stores \<^verbatim>\<open>round(float(value), 2)\<close>.

  A Python \<^verbatim>\<open>float\<close> is an IEEE 754 binary64 number. A finite one is modelled by the
  rational number it denotes (the two zeros are identified: they compare equal in Python);
  the infinities and NaN are constructors of their own.
\<close>

datatype pyfloat = Finite rat | PosInf | NegInf | NaN

datatype pyvalue = PyNone | PyBool bool | PyInt int | PyFloat pyfloat | PyStr string

text \<open>
  The subclasses of Python's \<^verbatim>\<open>Exception\<close> that the modelled code can meet. The last
  one stands for whatever the database client or the host raise (connection refused,
  HTTP error, missing \<^verbatim>\<open>hass\<close>), with its message. What is a \<^verbatim>\<open>BaseException\<close>
  only (the cancellation of the task by the host's scheduler, the exit of the
  interpreter) is no value of this type: it is no \<^verbatim>\<open>Exception\<close>, and it comes from the
  scheduling of tasks, which this sequential model leaves out.
\<close>

datatype exception =
    TypeError
  | ValueError
  | OverflowError
  | IndexError
  | KeyError
  | ClientError string

subsection \<open>Round to nearest, ties to even\<close>

definition round_half_even :: "rat \<Rightarrow> int" where
  "round_half_even q =
     (let f = \<lfloor>q\<rfloor>; r = q - of_int f
      in if r < 1 / 2 then f
         else if 1 / 2 < r then f + 1
         else if even f then f else f + 1)"

text \<open>\<open>bit_length n\<close> is Python's \<^verbatim>\<open>n.bit_length()\<close> for \<open>n \<ge> 0\<close>.\<close>

fun bit_length :: "nat \<Rightarrow> nat" where
  "bit_length n = (if n = 0 then 0 else Suc (bit_length (n div 2)))"

declare bit_length.simps [simp del]

definition pow2 :: "int \<Rightarrow> rat" where
  "pow2 k = (if 0 \<le> k then 2 ^ nat k else 1 / 2 ^ nat (- k))"

text \<open>
  \<open>ilog2 q\<close> is \<open>\<lfloor>log\<^sub>2 q\<rfloor>\<close> for a positive rational \<open>q\<close>: from the bit length of
  \<open>\<lfloor>q\<rfloor>\<close> when \<open>1 \<le> q\<close>, and from that of \<open>\<lceil>1 / q\<rceil> - 1\<close> below.
\<close>

definition ilog2 :: "rat \<Rightarrow> int" where
  "ilog2 q =
     (if 1 \<le> q then int (bit_length (nat \<lfloor>q\<rfloor>)) - 1
      else - int (bit_length (nat (\<lceil>1 / q\<rceil> - 1))))"

text \<open>
  \<open>double_of_rat q\<close> is the binary64 number nearest to \<open>q\<close> (ties to even), as the
  C library's \<^verbatim>\<open>strtod\<close> and CPython's integer conversion compute it: a significand of
  53 bits, the least exponent that of the subnormal numbers, and an infinity from
  \<open>2\<^sup>1\<^sup>0\<^sup>2\<^sup>4\<close> on.
\<close>

definition double_of_rat :: "rat \<Rightarrow> pyfloat" where
  "double_of_rat q =
     (if q = 0 then Finite 0
      else
        let a = \<bar>q\<bar>;
            e = max (ilog2 a - 52) (- 1074);
            m = round_half_even (a / pow2 e);
            v = of_int m * pow2 e
        in if pow2 1024 \<le> v then (if 0 < q then PosInf else NegInf)
           else Finite (sgn q * v))"

subsection \<open>The builtins \<^verbatim>\<open>float\<close> and \<^verbatim>\<open>round\<close>\<close>

text \<open>
  \<^verbatim>\<open>float(x)\<close>: a float is returned as it is, a bool and an int are converted (an int
  too large raises OverflowError), None raises TypeError. The conversion of a string is
  Python's own parser, which is no part of this repository: it is the parameter
  \<open>float_of_str\<close>, which answers ValueError or the parsed number.
\<close>

fun py_float :: "(string \<Rightarrow> exception + pyfloat) \<Rightarrow> pyvalue \<Rightarrow> exception + pyfloat" where
  "py_float float_of_str (PyFloat x) = Inr x"
| "py_float float_of_str (PyBool b) = Inr (Finite (if b then 1 else 0))"
| "py_float float_of_str (PyInt i) =
     (case double_of_rat (of_int i) of
        Finite q \<Rightarrow> Inr (Finite q)
      | _ \<Rightarrow> Inl OverflowError)"
| "py_float float_of_str PyNone = Inl TypeError"
| "py_float float_of_str (PyStr s) = float_of_str s"

text \<open>
  \<^verbatim>\<open>round(x, ndigits)\<close> on a float, for \<open>0 \<le> ndigits\<close>: NaN and the infinities round
  to themselves; a finite \<open>x\<close> is written in decimal with \<open>ndigits\<close> digits after the
  point, correctly rounded from its exact value with ties to even, and the decimal is
  read back as a float. CPython raises OverflowError when the decimal is out of range.
\<close>

fun py_round :: "pyfloat \<Rightarrow> nat \<Rightarrow> exception + pyfloat" where
  "py_round (Finite q) ndigits =
     (case double_of_rat (of_int (round_half_even (q * 10 ^ ndigits)) / 10 ^ ndigits) of
        Finite r \<Rightarrow> Inr (Finite r)
      | _ \<Rightarrow> Inl OverflowError)"
| "py_round x ndigits = Inr x"

text \<open>
  Comparisons of a float with an integer literal (\<^verbatim>\<open>>=\<close>, \<^verbatim>\<open><=\<close>, \<^verbatim>\<open>==\<close>). Python
  compares the exact values; every comparison with NaN is false.
\<close>

fun float_ge :: "pyfloat \<Rightarrow> int \<Rightarrow> bool" where
  "float_ge (Finite q) n = (of_int n \<le> q)"
| "float_ge PosInf n = True"
| "float_ge NegInf n = False"
| "float_ge NaN n = False"

fun float_le :: "pyfloat \<Rightarrow> int \<Rightarrow> bool" where
  "float_le (Finite q) n = (q \<le> of_int n)"
| "float_le PosInf n = False"
| "float_le NegInf n = True"
| "float_le NaN n = False"

fun float_eq :: "pyfloat \<Rightarrow> int \<Rightarrow> bool" where
  "float_eq (Finite q) n = (q = of_int n)"
| "float_eq x n = False"

section \<open>The Field Descriptor Table\<close>

record EnpalSensorConfig =
  icon :: string
  name :: string
  device_class :: string
  unit :: string

definition mk_config :: "string \<Rightarrow> string \<Rightarrow> string \<Rightarrow> string \<Rightarrow> EnpalSensorConfig" where
  "mk_config i n d u = \<lparr>icon = i, name = n, device_class = d, unit = u\<rparr>"

definition FIELD_MAP :: "string \<rightharpoonup> EnpalSensorConfig" where
  "FIELD_MAP = map_of
    [(''Power.DC.Total'', mk_config ''mdi:solar-power'' ''Enpal Solar Production Power'' ''power'' ''W''),
     (''Power.House.Total'', mk_config ''mdi:home-lightning-bolt'' ''Enpal Power House Total'' ''power'' ''W''),
     (''Power.External.Total'', mk_config ''mdi:home-lightning-bolt'' ''Enpal Power External Total'' ''power'' ''W''),
     (''Energy.Consumption.Total.Day'', mk_config ''mdi:home-lightning-bolt'' ''Enpal Energy Consumption'' ''energy'' ''kWh''),
     (''Energy.External.Total.Out.Day'', mk_config ''mdi:transmission-tower-export'' ''Enpal Energy External Out Day'' ''energy'' ''kWh''),
     (''Energy.External.Total.In.Day'', mk_config ''mdi:transmission-tower-import'' ''Enpal Energy External In Day'' ''energy'' ''kWh''),
     (''Energy.Production.Total.Day'', mk_config ''mdi:solar-power-variant'' ''Enpal Production Day'' ''energy'' ''kWh''),
     (''Voltage.Phase.A'', mk_config ''mdi:lightning-bolt'' ''Enpal Voltage Phase A'' ''voltage'' ''V''),
     (''Current.Phase.A'', mk_config ''mdi:lightning-bolt'' ''Enpal Ampere Phase A'' ''current'' ''A''),
     (''Power.AC.Phase.A'', mk_config ''mdi:lightning-bolt'' ''Enpal Power Phase A'' ''power'' ''W''),
     (''Voltage.Phase.B'', mk_config ''mdi:lightning-bolt'' ''Enpal Voltage Phase B'' ''voltage'' ''V''),
     (''Current.Phase.B'', mk_config ''mdi:lightning-bolt'' ''Enpal Ampere Phase B'' ''current'' ''A''),
     (''Power.AC.Phase.B'', mk_config ''mdi:lightning-bolt'' ''Enpal Power Phase B'' ''power'' ''W''),
     (''Voltage.Phase.C'', mk_config ''mdi:lightning-bolt'' ''Enpal Voltage Phase C'' ''voltage'' ''V''),
     (''Current.Phase.C'', mk_config ''mdi:lightning-bolt'' ''Enpal Ampere Phase C'' ''current'' ''A''),
     (''Power.AC.Phase.C'', mk_config ''mdi:lightning-bolt'' ''Enpal Power Phase C'' ''power'' ''W''),
     (''Current.String.1'', mk_config ''mdi:sun-angle'' ''Enpal Current String 1'' ''current'' ''A''),
     (''Voltage.String.1'', mk_config ''mdi:sun-angle'' ''Enpal Voltage String 1'' ''voltage'' ''V''),
     (''Power.DC.String.1'', mk_config ''mdi:sun-angle'' ''Enpal Power String 1'' ''power'' ''W''),
     (''Current.String.2'', mk_config ''mdi:sun-angle'' ''Enpal Current String 2'' ''current'' ''A''),
     (''Voltage.String.2'', mk_config ''mdi:sun-angle'' ''Enpal Voltage String 2'' ''voltage'' ''V''),
     (''Power.DC.String.2'', mk_config ''mdi:sun-angle'' ''Enpal Power String 2'' ''power'' ''W''),
     (''Power.Battery.Charge.Discharge'', mk_config ''mdi:battery-charging'' ''Enpal Battery Power'' ''power'' ''W''),
     (''Energy.Battery.Charge.Level'', mk_config ''mdi:battery'' ''Enpal Battery Percent'' ''battery'' ''%''),
     (''Energy.Battery.Charge.Day'', mk_config ''mdi:battery-arrow-up'' ''Enpal Battery Charge Day'' ''energy'' ''kWh''),
     (''Energy.Battery.Discharge.Day'', mk_config ''mdi:battery-arrow-down'' ''Enpal Battery Discharge Day'' ''energy'' ''kWh''),
     (''Energy.Battery.Charge.Total.Unit.1'', mk_config ''mdi:battery-arrow-up'' ''Enpal Battery Charge Total'' ''energy'' ''kWh''),
     (''Energy.Battery.Discharge.Total.Unit.1'', mk_config ''mdi:battery-arrow-down'' ''Enpal Battery Discharge Total'' ''energy'' ''kWh''),
     (''State.Wallbox.Connector.1.Charge'', mk_config ''mdi:ev-station'' ''Wallbox Charge Percent'' ''battery'' ''%''),
     (''Power.Wallbox.Connector.1.Charging'', mk_config ''mdi:ev-station'' ''Wallbox Charging Power'' ''power'' ''W''),
     (''Energy.Wallbox.Connector.1.Charged.Total'', mk_config ''mdi:ev-station'' ''Wallbox Charging Total'' ''energy'' ''Wh'')]"

section \<open>Query results, clock and entity state\<close>

text \<open>
  A Flux record carries a dict \<^verbatim>\<open>values\<close>, of which the code reads the keys
  \<^verbatim>\<open>_field\<close>, \<^verbatim>\<open>_measurement\<close> (tags, hence strings) and \<^verbatim>\<open>_value\<close>. Each is
  \<open>None\<close> when the key is missing from the dict, where the subscript raises KeyError.
\<close>

record flux_record =
  rec_field :: "string option"
  rec_measurement :: "string option"
  rec_value :: "pyvalue option"

record flux_table =
  records :: "flux_record list"

record datetime =
  year :: int
  month :: int
  day :: int
  hour :: int
  minute :: int
  second :: int
  microsecond :: int

datatype attr_value = AttrTime datetime | AttrStr string

text \<open>
  What one call of \<^verbatim>\<open>async_update\<close> reads from outside: the outcome of building the
  client and awaiting the query (lines 156 to 165), the local clock \<^verbatim>\<open>datetime.now()\<close>
  and the UTC clock \<^verbatim>\<open>datetime.utcnow()\<close>.
\<close>

record update_env =
  query_result :: "exception + flux_table list"
  now :: datetime
  utcnow :: datetime

text \<open>
  The entity: the attributes set by \<^verbatim>\<open>__init__\<close>, and those of the host's
  \<^verbatim>\<open>SensorEntity\<close> that \<^verbatim>\<open>async_update\<close> writes (absent until then).
\<close>

record EnpalSensor =
  field :: string
  measurement :: string
  ip :: pyvalue
  port :: pyvalue
  token :: pyvalue
  enpal_device_class :: string
  unit :: string
  attr_icon :: string
  attr_name :: string
  attr_unique_id :: string
  attr_extra_state_attributes :: "string \<rightharpoonup> attr_value"
  attr_native_value :: "pyfloat option"
  attr_device_class :: "string option"
  attr_native_unit_of_measurement :: "string option"
  attr_state_class :: "string option"
  state :: "string option"

definition init_sensor ::
  "string \<Rightarrow> string \<Rightarrow> string \<Rightarrow> string \<Rightarrow> pyvalue \<Rightarrow> pyvalue \<Rightarrow> pyvalue \<Rightarrow> string \<Rightarrow> string
     \<Rightarrow> EnpalSensor" where
  "init_sensor fld meas icn nm ip0 port0 token0 dev_class unt =
     \<lparr>field = fld, measurement = meas, ip = ip0, port = port0, token = token0,
      enpal_device_class = dev_class, unit = unt,
      attr_icon = icn, attr_name = nm,
      attr_unique_id = ''enpal_'' @ meas @ ''_'' @ fld,
      attr_extra_state_attributes = Map.empty,
      attr_native_value = None, attr_device_class = None,
      attr_native_unit_of_measurement = None, attr_state_class = None,
      state = None\<rparr>"

section \<open>The Entity Updater\<close>

text \<open>Lines 167 to 169: the value is 0 unless the query returned a table.\<close>

definition queried_value :: "flux_table list \<Rightarrow> exception + pyvalue" where
  "queried_value tables =
     (case tables of
        [] \<Rightarrow> Inr (PyInt 0)
      | t # _ \<Rightarrow>
          (case records t of
             [] \<Rightarrow> Inl IndexError
           | r # _ \<Rightarrow>
               (case rec_value r of
                  None \<Rightarrow> Inl KeyError
                | Some v \<Rightarrow> Inr v)))"

text \<open>\<^verbatim>\<open>datetime.utcnow().replace(hour=0, minute=0, second=0, microsecond=0)\<close>\<close>

definition midnight :: "datetime \<Rightarrow> datetime" where
  "midnight d = d\<lparr>hour := 0, minute := 0, second := 0, microsecond := 0\<rparr>"

text \<open>Lines 180 to 185: the two tests on the unit, one after the other.\<close>

definition energy_rule :: "update_env \<Rightarrow> EnpalSensor \<Rightarrow> EnpalSensor" where
  "energy_rule env s =
     (let s1 = (if attr_native_unit_of_measurement s = Some ''kWh''
                then s\<lparr>attr_extra_state_attributes :=
                         (attr_extra_state_attributes s)(''last_reset'' \<mapsto> AttrTime (midnight (utcnow env))),
                       attr_state_class := Some ''total_increasing''\<rparr>
                else s)
      in if attr_native_unit_of_measurement s1 = Some ''Wh''
         then s1\<lparr>attr_extra_state_attributes :=
                   (attr_extra_state_attributes s1)(''last_reset'' \<mapsto> AttrTime (midnight (utcnow env))),
                 attr_state_class := Some ''total_increasing''\<rparr>
         else s1)"

text \<open>
  Lines 188 to 209: eleven tests, each an \<^verbatim>\<open>if\<close> of its own, so that a later one
  overwrites the icon an earlier one has set.
\<close>

definition set_icon_if :: "bool \<Rightarrow> string \<Rightarrow> EnpalSensor \<Rightarrow> EnpalSensor" where
  "set_icon_if c i s = (if c then s\<lparr>attr_icon := i\<rparr> else s)"

definition battery_icon_rule :: "pyfloat \<Rightarrow> EnpalSensor \<Rightarrow> EnpalSensor" where
  "battery_icon_rule v s =
     (set_icon_if (float_eq v 100) ''mdi:battery''
     (set_icon_if (float_le v 99 \<and> float_ge v 90) ''mdi:battery-90''
     (set_icon_if (float_le v 89 \<and> float_ge v 80) ''mdi:battery-80''
     (set_icon_if (float_le v 79 \<and> float_ge v 70) ''mdi:battery-70''
     (set_icon_if (float_le v 69 \<and> float_ge v 60) ''mdi:battery-60''
     (set_icon_if (float_le v 59 \<and> float_ge v 50) ''mdi:battery-50''
     (set_icon_if (float_le v 49 \<and> float_ge v 40) ''mdi:battery-40''
     (set_icon_if (float_le v 39 \<and> float_ge v 30) ''mdi:battery-30''
     (set_icon_if (float_le v 29 \<and> float_ge v 20) ''mdi:battery-20''
     (set_icon_if (float_le v 19 \<and> float_ge v 10) ''mdi:battery-10''
     (set_icon_if (float_ge v 10) ''mdi:battery-outline'' s)))))))))))"

text \<open>
  Lines 171 to 209: the assignments made once the rounded value \<open>y\<close> is there. None of
  them can raise.
\<close>

definition store_reading :: "update_env \<Rightarrow> EnpalSensor \<Rightarrow> pyfloat \<Rightarrow> EnpalSensor" where
  "store_reading env self y =
     (let s1 = self\<lparr>attr_native_value := Some y,
                    attr_device_class := Some (enpal_device_class self),
                    attr_native_unit_of_measurement := Some (unit self),
                    attr_state_class := Some ''measurement'',
                    attr_extra_state_attributes :=
                      (attr_extra_state_attributes self)
                        (''last_check'' \<mapsto> AttrTime (now env),
                         ''field'' \<mapsto> AttrStr (field self),
                         ''measurement'' \<mapsto> AttrStr (measurement self))\<rparr>;
          s2 = energy_rule env s1
      in if field self = ''Percent.Storage.Level'' then battery_icon_rule y s2 else s2)"

text \<open>
  The body of the \<^verbatim>\<open>try\<close> (lines 156 to 209). Everything that can raise comes before
  the first assignment to the entity, so a raise leaves the entity as it was.
\<close>

definition try_update ::
  "(string \<Rightarrow> exception + pyfloat) \<Rightarrow> update_env \<Rightarrow> EnpalSensor \<Rightarrow> exception + EnpalSensor" where
  "try_update float_of_str env self =
     (case query_result env of
        Inl e \<Rightarrow> Inl e
      | Inr tables \<Rightarrow>
     (case queried_value tables of
        Inl e \<Rightarrow> Inl e
      | Inr v \<Rightarrow>
     (case py_float float_of_str v of
        Inl e \<Rightarrow> Inl e
      | Inr x \<Rightarrow>
     (case py_round x 2 of
        Inl e \<Rightarrow> Inl e
      | Inr y \<Rightarrow> Inr (store_reading env self y)))))"

text \<open>The handler of \<^verbatim>\<open>except Exception\<close> (lines 211 to 215).\<close>

definition on_exception :: "update_env \<Rightarrow> EnpalSensor \<Rightarrow> EnpalSensor" where
  "on_exception env self =
     self\<lparr>state := Some ''Error'',
          attr_native_value := None,
          attr_extra_state_attributes :=
            (attr_extra_state_attributes self)(''last_check'' \<mapsto> AttrTime (now env))\<rparr>"

text \<open>
  \<^verbatim>\<open>async_update\<close>: \<open>Inl\<close> would be an exception raised to the caller, \<open>Inr\<close> is the
  entity after a normal return.
\<close>

definition async_update ::
  "(string \<Rightarrow> exception + pyfloat) \<Rightarrow> update_env \<Rightarrow> EnpalSensor \<Rightarrow> exception + EnpalSensor" where
  "async_update float_of_str env self =
     (case try_update float_of_str env self of
        Inr s \<Rightarrow> Inr s
      | Inl e \<Rightarrow> Inr (on_exception env self))"

section \<open>Field Discovery\<close>

text \<open>
  The host's side of \<^verbatim>\<open>async_setup_entry\<close>: the configuration entry (its options
  dict as the list of its items, each key once), the entries of the entity registry, and the host object with \<^verbatim>\<open>hass.data[DOMAIN]\<close>, the registry and a
  log of the calls the function makes to the outside (the query, the removals, the
  registration), in the order it makes them.
\<close>

record ConfigEntry =
  entry_id :: string
  options :: "(string \<times> pyvalue) list"

record RegistryEntry =
  entity_id :: string
  config_entry_id :: string

datatype host_call =
    GetTables pyvalue pyvalue pyvalue
  | AsyncRemove string
  | AsyncAddEntities "EnpalSensor list" bool

record HomeAssistant =
  data :: "string \<rightharpoonup> (string \<rightharpoonup> pyvalue)"
  entity_registry :: "RegistryEntry list"
  calls :: "host_call list"

text \<open>
  The registry functions of the host, as their contracts read:
  \<^verbatim>\<open>async_entries_for_config_entry\<close> lists the entries of one configuration entry,
  \<^verbatim>\<open>async_remove\<close> deletes the entry of an entity id, and \<^verbatim>\<open>async_add_entities\<close>
  takes the new entities over.
\<close>

definition async_entries_for_config_entry :: "RegistryEntry list \<Rightarrow> string \<Rightarrow> RegistryEntry list" where
  "async_entries_for_config_entry registry eid = filter (\<lambda>e. config_entry_id e = eid) registry"

definition async_remove :: "HomeAssistant \<Rightarrow> string \<Rightarrow> HomeAssistant" where
  "async_remove hass eid =
     hass\<lparr>entity_registry := filter (\<lambda>e. entity_id e \<noteq> eid) (entity_registry hass),
          calls := calls hass @ [AsyncRemove eid]\<rparr>"

definition async_add_entities :: "HomeAssistant \<Rightarrow> EnpalSensor list \<Rightarrow> bool \<Rightarrow> HomeAssistant" where
  "async_add_entities hass new_entities update_before_add =
     hass\<lparr>calls := calls hass @ [AsyncAddEntities new_entities update_before_add]\<rparr>"

text \<open>
  The loop of lines 105 to 124 over the tables of the query, with its two variables
  \<^verbatim>\<open>encountered_fields\<close> and \<^verbatim>\<open>to_add\<close>. A table without a record raises IndexError at
  \<^verbatim>\<open>records[0]\<close>, a record without the key raises KeyError; neither is caught.
\<close>

fun discover ::
  "pyvalue \<Rightarrow> pyvalue \<Rightarrow> pyvalue \<Rightarrow> flux_table list \<Rightarrow> string set \<Rightarrow> EnpalSensor list
     \<Rightarrow> exception + (string set \<times> EnpalSensor list)" where
  "discover ip0 port0 token0 [] encountered_fields to_add = Inr (encountered_fields, to_add)"
| "discover ip0 port0 token0 (table # tables) encountered_fields to_add =
     (case records table of
        [] \<Rightarrow> Inl IndexError
      | r # _ \<Rightarrow>
     (case rec_field r of
        None \<Rightarrow> Inl KeyError
      | Some fld \<Rightarrow>
     (case rec_measurement r of
        None \<Rightarrow> Inl KeyError
      | Some meas \<Rightarrow>
          if fld \<in> encountered_fields
          then discover ip0 port0 token0 tables encountered_fields to_add
          else
            (case FIELD_MAP fld of
               None \<Rightarrow> discover ip0 port0 token0 tables (insert fld encountered_fields) to_add
             | Some field_config \<Rightarrow>
                 discover ip0 port0 token0 tables
                   (insert fld (insert fld encountered_fields))
                   (to_add @
                     [init_sensor fld meas (icon field_config) (name field_config)
                        ip0 port0 token0
                        (device_class field_config) (EnpalSensorConfig.unit field_config)])))))"

text \<open>
  \<^verbatim>\<open>async_setup_entry\<close>. The third argument is the outcome of the awaited
  \<^verbatim>\<open>get_tables\<close> call, should the function come to make it. \<open>Inl\<close> is an exception
  raised to the caller, \<open>Inr\<close> the host after a normal return.
\<close>

definition async_setup_entry ::
  "HomeAssistant \<Rightarrow> ConfigEntry \<Rightarrow> (exception + flux_table list) \<Rightarrow> exception + HomeAssistant" where
  "async_setup_entry hass config_entry tables_result =
     (case data hass (entry_id config_entry) of
        None \<Rightarrow> Inl KeyError
      | Some config0 \<Rightarrow>
          (let config = (if options config_entry \<noteq> []
                         then config0 ++ map_of (options config_entry) else config0);
               hass1 = hass\<lparr>data := (data hass)(entry_id config_entry \<mapsto> config)\<rparr>
           in
     (case config ''enpal_host_ip'' of
        None \<Rightarrow> Inr hass1
      | Some ip0 \<Rightarrow>
     (case config ''enpal_host_port'' of
        None \<Rightarrow> Inr hass1
      | Some port0 \<Rightarrow>
     (case config ''enpal_token'' of
        None \<Rightarrow> Inr hass1
      | Some token0 \<Rightarrow>
          (let hass2 = hass1\<lparr>calls := calls hass1 @ [GetTables ip0 port0 token0]\<rparr>
           in
     (case tables_result of
        Inl e \<Rightarrow> Inl e
      | Inr tables \<Rightarrow>
     (case discover ip0 port0 token0 tables {} [] of
        Inl e \<Rightarrow> Inl e
      | Inr (encountered_fields, to_add) \<Rightarrow>
          (let entries = async_entries_for_config_entry (entity_registry hass2)
                           (entry_id config_entry);
               hass3 = foldl (\<lambda>h entry. async_remove h (entity_id entry)) hass2 entries
           in Inr (async_add_entities hass3 to_add True))))))))))"

section \<open>The icon tiers as the specification words them\<close>

text \<open>
  The tier of the bucket \<open>k\<close> (for \<open>k\<close> from 1 to 9) is the text \<^verbatim>\<open>mdi:battery-\<close>
  followed by the decimal numeral of \<open>10 * k\<close>, that is the digit \<open>k\<close> and a zero.
\<close>

definition spec_tier_icon :: "nat \<Rightarrow> string" where
  "spec_tier_icon k = ''mdi:battery-'' @ [''0123456789'' ! k, CHR ''0'']"

text \<open>
  The measurement of the first result, in the order of the query, that carries the field
  name \<open>f\<close>.
\<close>

fun spec_first_measurement :: "string \<Rightarrow> flux_table list \<Rightarrow> string option" where
  "spec_first_measurement f [] = None"
| "spec_first_measurement f (t # ts) =
     (case records t of
        [] \<Rightarrow> spec_first_measurement f ts
      | r # _ \<Rightarrow>
          if rec_field r = Some f then rec_measurement r else spec_first_measurement f ts)"

section \<open>Concrete inputs\<close>

definition noon :: datetime where
  "noon = \<lparr>year = 2023, month = 5, day = 17, hour = 13, minute = 45, second = 12,
           microsecond = 250\<rparr>"

definition no_str :: "string \<Rightarrow> exception + pyfloat" where
  "no_str s = Inl ValueError"

definition production_sensor :: EnpalSensor where
  "production_sensor =
     init_sensor ''Energy.Production.Total.Day'' ''inverter'' ''mdi:solar-power-variant''
       ''Enpal Production Day'' (PyStr ''192.168.178.50'') (PyInt 8086) (PyStr ''secret'')
       ''energy'' ''kWh''"

definition power_sensor :: EnpalSensor where
  "power_sensor =
     init_sensor ''Power.DC.Total'' ''inverter'' ''mdi:solar-power''
       ''Enpal Solar Production Power'' (PyStr ''192.168.178.50'') (PyInt 8086) (PyStr ''secret'')
       ''power'' ''W''"

definition storage_sensor :: EnpalSensor where
  "storage_sensor =
     init_sensor ''Percent.Storage.Level'' ''system'' ''mdi:battery''
       ''Enpal Battery Percent'' (PyStr ''192.168.178.50'') (PyInt 8086) (PyStr ''secret'')
       ''battery'' ''%''"

definition row_table :: "string \<Rightarrow> string \<Rightarrow> pyvalue \<Rightarrow> flux_table" where
  "row_table f m v =
     \<lparr>records = [\<lparr>rec_field = Some f, rec_measurement = Some m, rec_value = Some v\<rparr>]\<rparr>"

definition one_row :: "pyvalue \<Rightarrow> flux_table list" where
  "one_row v = [row_table ''Percent.Storage.Level'' ''system'' v]"

definition env_of :: "exception + flux_table list \<Rightarrow> update_env" where
  "env_of r = \<lparr>query_result = r, now = noon, utcnow = noon\<rparr>"

definition shared_field_tables :: "flux_table list" where
  "shared_field_tables =
     [row_table ''Power.DC.Total'' ''inverter'' (PyFloat (Finite 1200)),
      row_table ''Power.DC.Total'' ''powerSensor'' (PyFloat (Finite 1180))]"

definition unknown_field_tables :: "flux_table list" where
  "unknown_field_tables =
     [row_table ''Temperature.Housing.Inside'' ''inverter'' (PyFloat (Finite 21)),
      row_table ''Temperature.Housing.Inside'' ''system'' (PyFloat (Finite 22))]"

definition full_config :: "string \<rightharpoonup> pyvalue" where
  "full_config = [''enpal_host_ip'' \<mapsto> PyStr ''192.168.178.50'',
                  ''enpal_host_port'' \<mapsto> PyInt 8086,
                  ''enpal_token'' \<mapsto> PyStr ''secret'']"

definition config_without_token :: "string \<rightharpoonup> pyvalue" where
  "config_without_token = [''enpal_host_ip'' \<mapsto> PyStr ''192.168.178.50'',
                           ''enpal_host_port'' \<mapsto> PyInt 8086]"

definition old_registry :: "RegistryEntry list" where
  "old_registry =
     [\<lparr>entity_id = ''sensor.enpal_solar_production_power'', config_entry_id = ''entry1''\<rparr>,
      \<lparr>entity_id = ''sensor.kitchen_temperature'', config_entry_id = ''entry2''\<rparr>]"

definition home :: "(string \<rightharpoonup> pyvalue) \<Rightarrow> HomeAssistant" where
  "home config = \<lparr>data = [''entry1'' \<mapsto> config], entity_registry = old_registry, calls = []\<rparr>"

definition entry1 :: ConfigEntry where
  "entry1 = \<lparr>entry_id = ''entry1'', options = []\<rparr>"

section \<open>Facts about the builtins\<close>

lemma double_of_rat_0: "double_of_rat 0 = Finite 0"
  by (simp add: double_of_rat_def)

lemma round_half_even_0: "round_half_even 0 = 0"
  by (simp add: round_half_even_def)

lemma bit_length_0: "bit_length 0 = 0"
  by (simp add: bit_length.simps)

lemma bit_length_1: "bit_length 1 = 1"
  by (subst bit_length.simps) (simp add: bit_length_0)

lemma bit_length_Suc_0: "bit_length (Suc 0) = 1"
  using bit_length_1 by simp

lemma bit_length_Bit0: "bit_length (numeral (Num.Bit0 n)) = Suc (bit_length (numeral n))"
  by (subst bit_length.simps) simp

lemma bit_length_Bit1: "bit_length (numeral (Num.Bit1 n)) = Suc (bit_length (numeral n))"
  by (subst bit_length.simps) simp

lemmas bit_length_numeral =
  bit_length_0 bit_length_1 bit_length_Suc_0 bit_length_Bit0 bit_length_Bit1

lemma floor_rat_numeral: "\<lfloor>numeral a / numeral b :: rat\<rfloor> = numeral a div numeral b"
  by (metis floor_divide_of_int_eq of_int_numeral)

lemma ceiling_rat_numeral: "\<lceil>numeral a / numeral b :: rat\<rceil> = - (- numeral a div numeral b)"
proof -
  have "\<lceil>rat_of_int (numeral a) / rat_of_int (numeral b)\<rceil> = - (- numeral a div numeral b)"
    unfolding ceiling_def
    by (metis floor_divide_of_int_eq minus_divide_left of_int_minus)
  then show ?thesis by simp
qed

text \<open>The integer that \<open>round_half_even\<close> returns is within one half of its argument.\<close>

lemma round_half_even_close: "\<bar>q - of_int (round_half_even q)\<bar> \<le> 1 / 2"
proof -
  have "of_int \<lfloor>q\<rfloor> \<le> q" "q < of_int \<lfloor>q\<rfloor> + 1"
    by linarith+
  then show ?thesis
    by (auto simp: round_half_even_def Let_def abs_le_iff)
qed

text \<open>Away from a tie, it is the one integer within less than one half.\<close>

lemma round_half_even_unique:
  assumes "of_int n - 1 / 2 < q" "q < of_int n + 1 / 2"
  shows "round_half_even q = n"
proof (cases "of_int n \<le> q")
  case True
  with assms have "\<lfloor>q\<rfloor> = n" by (intro floor_unique) auto
  with assms show ?thesis by (simp add: round_half_even_def Let_def)
next
  case False
  with assms have "\<lfloor>q\<rfloor> = n - 1" by (intro floor_unique) auto
  with assms show ?thesis by (simp add: round_half_even_def Let_def)
qed

lemma round_half_even_of_int: "round_half_even (of_int n) = n"
  by (rule round_half_even_unique) simp_all

text \<open>
  The definitions above meet their descriptions: \<open>bit_length n\<close> is the number of binary
  digits of \<open>n\<close>, \<open>ilog2 q\<close> is the exponent of the power of two at or below \<open>q\<close>, and
  \<open>double_of_rat q\<close> lies within half a unit in the last place of \<open>q\<close>.
\<close>

lemma bit_length_bounds: "0 < n \<Longrightarrow> 2 ^ (bit_length n - 1) \<le> n \<and> n < 2 ^ bit_length n"
proof (induction n rule: bit_length.induct)
  case (1 n)
  show ?case
  proof (cases "n div 2 = 0")
    case True
    with "1.prems" have "n = 1" by auto
    then show ?thesis by (simp add: bit_length_numeral)
  next
    case False
    with "1.IH" "1.prems" have ih: "2 ^ (bit_length (n div 2) - 1) \<le> n div 2"
      "n div 2 < 2 ^ bit_length (n div 2)"
      by auto
    have bl: "bit_length n = Suc (bit_length (n div 2))"
      using "1.prems" by (subst bit_length.simps) simp
    have pos: "0 < bit_length (n div 2)"
      using False by (subst bit_length.simps) simp
    from ih(1) have "2 * 2 ^ (bit_length (n div 2) - 1) \<le> n" by linarith
    moreover have "2 * 2 ^ (bit_length (n div 2) - 1) = (2::nat) ^ bit_length (n div 2)"
      using pos by (cases "bit_length (n div 2)") simp_all
    moreover from ih(2) have "n < 2 * 2 ^ bit_length (n div 2)" by linarith
    ultimately show ?thesis by (simp add: bl)
  qed
qed


lemma pow2_of_nat: "pow2 (int k) = 2 ^ k"
  by (simp add: pow2_def)

lemma pow2_neg_of_nat: "pow2 (- int k) = 1 / 2 ^ k"
  by (simp add: pow2_def)

lemma ilog2_bounds:
  assumes "0 < q"
  shows "pow2 (ilog2 q) \<le> q \<and> q < pow2 (ilog2 q + 1)"
proof (cases "1 \<le> q")
  case True
  define n where "n = nat \<lfloor>q\<rfloor>"
  define k where "k = bit_length n"
  from True have fl: "1 \<le> \<lfloor>q\<rfloor>" by (simp add: le_floor_iff)
  then have n: "0 < n" and nq: "rat_of_nat n = of_int \<lfloor>q\<rfloor>"
    by (simp_all add: n_def)
  from bit_length_bounds [OF n] have b: "2 ^ (k - 1) \<le> n" "n < 2 ^ k"
    by (simp_all add: k_def)
  from n have k: "0 < k"
    unfolding k_def by (subst bit_length.simps) simp
  have il: "ilog2 q = int (k - 1)"
    using True k by (simp add: ilog2_def n_def k_def)
  have il1: "ilog2 q + 1 = int k"
    using il k by simp
  have "rat_of_nat (2 ^ (k - 1)) \<le> rat_of_nat n"
    using b(1) by (simp only: of_nat_le_iff)
  also have "\<dots> \<le> q" unfolding nq by simp
  finally have lo: "2 ^ (k - 1) \<le> q" by simp
  have "q < of_int \<lfloor>q\<rfloor> + 1" by linarith
  also have "\<dots> = rat_of_nat (n + 1)" using nq by simp
  also have "\<dots> \<le> rat_of_nat (2 ^ k)"
    using b(2) by (simp only: of_nat_le_iff)
  finally have hi: "q < 2 ^ k" by simp
  have p1: "pow2 (ilog2 q) = 2 ^ (k - 1)"
    by (simp only: il pow2_of_nat)
  have p2: "pow2 (ilog2 q + 1) = 2 ^ k"
    by (simp only: il1 pow2_of_nat)
  from lo hi show ?thesis
    unfolding p1 p2 by blast
next
  case False
  define c where "c = \<lceil>1 / q\<rceil>"
  define n where "n = nat (c - 1)"
  define k where "k = bit_length n"
  from False assms have inv: "1 < 1 / q" by simp
  then have c2: "2 \<le> c" unfolding c_def by (simp add: le_ceiling_iff) 
  then have n: "0 < n" and nc: "rat_of_nat n = of_int c - 1"
    by (simp_all add: n_def)
  from bit_length_bounds [OF n] have b: "2 ^ (k - 1) \<le> n" "n < 2 ^ k"
    by (simp_all add: k_def)
  from n have k: "0 < k"
    unfolding k_def by (subst bit_length.simps) simp
  have il: "ilog2 q = - int k"
    using False by (simp add: ilog2_def n_def k_def c_def)
  have il1: "ilog2 q + 1 = - int (k - 1)"
    using il k by simp
  have up: "1 / q \<le> of_int c" unfolding c_def by simp
  have dn: "of_int c - 1 < 1 / q" unfolding c_def by linarith
  have "rat_of_nat (n + 1) \<le> rat_of_nat (2 ^ k)"
    using b(2) by (simp only: of_nat_le_iff)
  then have "of_int c \<le> (2::rat) ^ k" using nc by simp
  with up have "1 / q \<le> 2 ^ k" by linarith
  then have lo: "1 / 2 ^ k \<le> q"
    using assms by (simp add: field_simps)
  have "rat_of_nat (2 ^ (k - 1)) \<le> rat_of_nat n"
    using b(1) by (simp only: of_nat_le_iff)
  then have "(2::rat) ^ (k - 1) \<le> of_int c - 1" using nc by simp
  with dn have "2 ^ (k - 1) < 1 / q" by linarith
  then have hi: "q < 1 / 2 ^ (k - 1)"
    using assms by (simp add: field_simps)
  have p1: "pow2 (ilog2 q) = 1 / 2 ^ k"
    by (simp only: il pow2_neg_of_nat)
  have p2: "pow2 (ilog2 q + 1) = 1 / 2 ^ (k - 1)"
    by (simp only: il1 pow2_neg_of_nat)
  from lo hi show ?thesis
    unfolding p1 p2 by blast
qed


lemma pow2_pos: "0 < pow2 k"
  by (simp add: pow2_def)

lemma double_of_rat_close:
  assumes "double_of_rat q = Finite r"
  shows "\<bar>r - q\<bar> \<le> pow2 (max (ilog2 \<bar>q\<bar> - 52) (- 1074)) / 2"
proof (cases "q = 0")
  case True
  with assms have "r = 0" by (simp add: double_of_rat_def)
  with True show ?thesis using pow2_pos [of "max (ilog2 \<bar>q\<bar> - 52) (- 1074)"] by simp
next
  case False
  define e where "e = max (ilog2 \<bar>q\<bar> - 52) (- 1074)"
  define m where "m = round_half_even (\<bar>q\<bar> / pow2 e)"
  from assms False have r: "r = sgn q * (of_int m * pow2 e)"
    by (simp add: double_of_rat_def Let_def e_def m_def split: if_splits del: of_int_mult)
  have pos: "0 < pow2 e" by (rule pow2_pos)
  have "\<bar>\<bar>q\<bar> / pow2 e - of_int m\<bar> \<le> 1 / 2"
    unfolding m_def by (rule round_half_even_close)
  then have "\<bar>\<bar>q\<bar> / pow2 e - of_int m\<bar> * pow2 e \<le> 1 / 2 * pow2 e"
    using pos by (intro mult_right_mono) simp_all
  also have "\<bar>\<bar>q\<bar> / pow2 e - of_int m\<bar> * pow2 e = \<bar>\<bar>q\<bar> - of_int m * pow2 e\<bar>"
  proof -
    have "(\<bar>q\<bar> / pow2 e - of_int m) * pow2 e = \<bar>q\<bar> - of_int m * pow2 e"
      using pos by (simp add: left_diff_distrib)
    then have "\<bar>\<bar>q\<bar> - of_int m * pow2 e\<bar> = \<bar>\<bar>q\<bar> / pow2 e - of_int m\<bar> * \<bar>pow2 e\<bar>"
      by (simp only: abs_mult [symmetric])
    with pos show ?thesis by (simp only: abs_of_pos)
  qed
  finally have d: "\<bar>\<bar>q\<bar> - of_int m * pow2 e\<bar> \<le> pow2 e / 2" by simp
  have "q = sgn q * \<bar>q\<bar>"
    by (simp add: sgn_mult_abs)
  then have "r - q = sgn q * (of_int m * pow2 e) - sgn q * \<bar>q\<bar>"
    unfolding r by simp
  then have "r - q = sgn q * (of_int m * pow2 e - \<bar>q\<bar>)"
    by (simp only: right_diff_distrib)
  then have "\<bar>r - q\<bar> = \<bar>of_int m * pow2 e - \<bar>q\<bar>\<bar>"
    using False by (simp add: abs_mult abs_sgn_eq)
  with d show ?thesis unfolding e_def by (simp add: abs_minus_commute)
qed

text \<open>Evaluating \<open>double_of_rat\<close> from its intermediate results.\<close>

lemma double_of_rat_eval:
  assumes "q \<noteq> 0" "ilog2 \<bar>q\<bar> = k" "max (k - 52) (- 1074) = e"
    and "round_half_even (\<bar>q\<bar> / pow2 e) = m" "of_int m * pow2 e < pow2 1024"
  shows "double_of_rat q = Finite (sgn q * (of_int m * pow2 e))"
  using assms by (simp add: double_of_rat_def Let_def del: of_int_mult)

lemma py_round_eval:
  assumes "round_half_even (q * 100) = n" "double_of_rat (of_int n / 100) = Finite r"
  shows "py_round (Finite q) 2 = Inr (Finite r)"
  using assms by simp




lemma double_55: "double_of_rat 55 = Finite 55"
proof -
  have "double_of_rat 55 = Finite (sgn 55 * (of_int (55 * 2 ^ 47) * pow2 (- 47)))"
  proof (rule double_of_rat_eval [where k = 5])
    show "round_half_even (\<bar>55\<bar> / pow2 (- 47)) = 55 * 2 ^ 47"
      by (rule round_half_even_unique) (simp_all add: pow2_def)
  qed (simp_all add: ilog2_def floor_rat_numeral ceiling_rat_numeral bit_length_numeral pow2_def)
  then show ?thesis by (simp add: pow2_def)
qed


lemma py_round_55: "py_round (Finite 55) 2 = Inr (Finite 55)"
proof (rule py_round_eval [where n = 5500])
  show "round_half_even (55 * 100) = 5500"
    by (rule round_half_even_unique) simp_all
  show "double_of_rat (rat_of_int 5500 / 100) = Finite 55"
    using double_55 by simp
qed

lemma py_round_zero: "py_round (Finite 0) 2 = Inr (Finite 0)"
  by (simp add: round_half_even_0 double_of_rat_0)

lemma py_float_zero: "py_float p (PyInt 0) = Inr (Finite 0)"
  by (simp add: double_of_rat_0)

section \<open>The Entity Updater: what an update leaves unchanged\<close>

lemma try_update_InrD:
  assumes "try_update p env self = Inr s'"
  obtains tables v x y where
    "query_result env = Inr tables" "queried_value tables = Inr v"
    "py_float p v = Inr x" "py_round x 2 = Inr y" "s' = store_reading env self y"
  using assms unfolding try_update_def
  by (auto split: sum.splits simp del: py_round.simps py_float.simps)

lemma async_update_success:
  "try_update p env self = Inr s' \<Longrightarrow> async_update p env self = Inr s'"
  by (simp add: async_update_def)

lemma set_icon_if_keeps:
  "attr_native_value (set_icon_if c i s) = attr_native_value s"
  "attr_extra_state_attributes (set_icon_if c i s) = attr_extra_state_attributes s"
  "attr_state_class (set_icon_if c i s) = attr_state_class s"
  "field (set_icon_if c i s) = field s"
  by (simp_all add: set_icon_if_def)

lemma battery_icon_rule_keeps:
  "attr_native_value (battery_icon_rule v s) = attr_native_value s"
  "attr_extra_state_attributes (battery_icon_rule v s) = attr_extra_state_attributes s"
  "attr_state_class (battery_icon_rule v s) = attr_state_class s"
  "field (battery_icon_rule v s) = field s"
  by (simp_all add: battery_icon_rule_def set_icon_if_keeps)

lemma energy_rule_keeps:
  "attr_native_value (energy_rule env s) = attr_native_value s"
  "attr_icon (energy_rule env s) = attr_icon s"
  "field (energy_rule env s) = field s"
  by (simp_all add: energy_rule_def Let_def)

lemma native_value_store_reading: "attr_native_value (store_reading env self y) = Some y"
  by (simp add: store_reading_def Let_def battery_icon_rule_keeps energy_rule_keeps)

lemma try_update_zero_rows:
  "query_result env = Inr [] \<Longrightarrow>
   try_update p env self = Inr (store_reading env self (Finite 0))"
  unfolding try_update_def
  by (simp add: queried_value_def py_float_zero py_round_zero
      del: py_round.simps py_float.simps)

lemma try_update_one_row:
  assumes "py_float p v = Inr x" "py_round x 2 = Inr y"
  shows "try_update p (env_of (Inr (one_row v))) self
           = Inr (store_reading (env_of (Inr (one_row v))) self y)"
  unfolding try_update_def using assms
  by (simp add: queried_value_def env_of_def one_row_def row_table_def
      del: py_round.simps py_float.simps)

lemma midnight_fields:
  "midnight d = \<lparr>year = year d, month = month d, day = day d, hour = 0, minute = 0,
                 second = 0, microsecond = 0\<rparr>"
  by (cases d) (simp add: midnight_def)

lemma attrs_store_reading:
  "attr_extra_state_attributes (store_reading env self y) =
     (let m = (attr_extra_state_attributes self)
                (''last_check'' \<mapsto> AttrTime (now env),
                 ''field'' \<mapsto> AttrStr (field self),
                 ''measurement'' \<mapsto> AttrStr (measurement self))
      in if unit self = ''kWh'' \<or> unit self = ''Wh''
         then m(''last_reset'' \<mapsto> AttrTime (midnight (utcnow env))) else m)"
  by (simp add: store_reading_def Let_def battery_icon_rule_keeps energy_rule_def)

subsection \<open>The icon tiers\<close>

lemma icon_set_icon_if: "attr_icon (set_icon_if c i s) = (if c then i else attr_icon s)"
  by (simp add: set_icon_if_def)

lemma icon_battery_icon_rule:
  "attr_icon (battery_icon_rule v s) =
     (if float_eq v 100 then ''mdi:battery''
      else if float_le v 99 \<and> float_ge v 90 then ''mdi:battery-90''
      else if float_le v 89 \<and> float_ge v 80 then ''mdi:battery-80''
      else if float_le v 79 \<and> float_ge v 70 then ''mdi:battery-70''
      else if float_le v 69 \<and> float_ge v 60 then ''mdi:battery-60''
      else if float_le v 59 \<and> float_ge v 50 then ''mdi:battery-50''
      else if float_le v 49 \<and> float_ge v 40 then ''mdi:battery-40''
      else if float_le v 39 \<and> float_ge v 30 then ''mdi:battery-30''
      else if float_le v 29 \<and> float_ge v 20 then ''mdi:battery-20''
      else if float_le v 19 \<and> float_ge v 10 then ''mdi:battery-10''
      else if float_ge v 10 then ''mdi:battery-outline''
      else attr_icon s)"
  by (simp only: battery_icon_rule_def icon_set_icon_if)

lemma float_bounds:
  "float_ge v a \<Longrightarrow> float_le v b \<Longrightarrow> \<exists>q. v = Finite q \<and> of_int a \<le> q \<and> q \<le> of_int b"
  by (cases v) simp_all

lemma spec_tier_icon_values:
  "spec_tier_icon 1 = ''mdi:battery-10''" "spec_tier_icon 2 = ''mdi:battery-20''"
  "spec_tier_icon 3 = ''mdi:battery-30''" "spec_tier_icon 4 = ''mdi:battery-40''"
  "spec_tier_icon 5 = ''mdi:battery-50''" "spec_tier_icon 6 = ''mdi:battery-60''"
  "spec_tier_icon 7 = ''mdi:battery-70''" "spec_tier_icon 8 = ''mdi:battery-80''"
  "spec_tier_icon 9 = ''mdi:battery-90''"
  by (simp_all add: spec_tier_icon_def)

lemma tier_of_bucket:
  assumes "k \<in> {1..9}" "float_ge v (10 * int k)" "float_le v (10 * int k + 9)"
  shows "attr_icon (battery_icon_rule v s) = spec_tier_icon k"
proof -
  from float_bounds [OF assms(2,3)] obtain q where
    v: "v = Finite q" and lo: "of_int (10 * int k) \<le> q" and hi: "q \<le> of_int (10 * int k + 9)"
    by blast
  from assms(1) have "k = 1 \<or> k = 2 \<or> k = 3 \<or> k = 4 \<or> k = 5 \<or> k = 6 \<or> k = 7 \<or> k = 8 \<or> k = 9"
    by auto
  then show ?thesis
    using lo hi
    by (elim disjE) (simp_all add: icon_battery_icon_rule v spec_tier_icon_values [symmetric])
qed

lemma icon_store_reading_storage:
  "field self = ''Percent.Storage.Level'' \<Longrightarrow>
   \<exists>s. attr_icon (store_reading env self y) = attr_icon (battery_icon_rule y s)"
  by (auto simp: store_reading_def Let_def)

lemma store_reading_other_field:
  "field self \<noteq> ''Percent.Storage.Level'' \<Longrightarrow>
   attr_icon (store_reading env self y) = attr_icon self \<and>
   field (store_reading env self y) = field self"
  by (simp add: store_reading_def Let_def energy_rule_keeps)

lemma async_update_other_field:
  assumes "field self \<noteq> ''Percent.Storage.Level''" "async_update p env self = Inr s'"
  shows "attr_icon s' = attr_icon self \<and> field s' = field self"
proof (cases "try_update p env self")
  case (Inl e)
  with assms(2) show ?thesis by (auto simp: async_update_def on_exception_def)
next
  case (Inr s)
  then obtain y where "s = store_reading env self y" by (rule try_update_InrD)
  moreover from Inr assms(2) have "s' = s" by (simp add: async_update_def)
  ultimately show ?thesis using store_reading_other_field [OF assms(1)] by simp
qed

section \<open>Field Discovery: the loop and the registry\<close>

lemma field_init_sensor: "field (init_sensor f m i n a b c d u) = f"
  by (simp add: init_sensor_def)

lemma measurement_init_sensor: "measurement (init_sensor f m i n a b c d u) = m"
  by (simp add: init_sensor_def)

text \<open>Every entity the loop appends has a field of the table.\<close>

lemma discover_known_fields:
  assumes "discover ip0 port0 token0 tables enc acc = Inr (enc', acc')"
    and "\<forall>s\<in>set acc. FIELD_MAP (field s) \<noteq> None"
  shows "\<forall>s\<in>set acc'. FIELD_MAP (field s) \<noteq> None"
  using assms
proof (induction tables arbitrary: enc acc)
  case Nil
  then show ?case by simp
next
  case (Cons t ts)
  then show ?case
    by (auto simp: field_init_sensor split: list.splits option.splits if_splits)
qed

text \<open>
  The entities of one field name \<open>f\<close> that the loop appends: none if \<open>f\<close> was met before
  or is no key of the table, else one, with the measurement of the first table of \<open>f\<close>.
\<close>

lemma discover_filter_field:
  assumes "discover ip0 port0 token0 tables enc acc = Inr (enc', acc')"
  shows "filter (\<lambda>s. field s = f) acc' =
           filter (\<lambda>s. field s = f) acc @
           (if f \<in> enc then []
            else case spec_first_measurement f tables of
                   None \<Rightarrow> []
                 | Some m \<Rightarrow>
                     (case FIELD_MAP f of
                        None \<Rightarrow> []
                      | Some c \<Rightarrow>
                          [init_sensor f m (icon c) (name c) ip0 port0 token0
                             (device_class c) (EnpalSensorConfig.unit c)]))"
  using assms
proof (induction tables arbitrary: enc acc)
  case Nil
  then show ?case by simp
next
  case (Cons t ts)
  from Cons.prems obtain r rs fld meas where
    t: "records t = r # rs" "rec_field r = Some fld" "rec_measurement r = Some meas"
    by (auto split: list.splits option.splits)
  show ?case
  proof (cases "fld \<in> enc")
    case True
    with Cons.prems t have "discover ip0 port0 token0 ts enc acc = Inr (enc', acc')"
      by simp
    from Cons.IH [OF this] True t show ?thesis
      by auto
  next
    case False
    show ?thesis
    proof (cases "FIELD_MAP fld")
      case None
      with Cons.prems t False
      have "discover ip0 port0 token0 ts (insert fld enc) acc = Inr (enc', acc')"
        by simp
      from Cons.IH [OF this] False None t show ?thesis
        by auto
    next
      case (Some c)
      let ?new = "init_sensor fld meas (icon c) (name c) ip0 port0 token0
                    (device_class c) (EnpalSensorConfig.unit c)"
      from Cons.prems t False Some
      have "discover ip0 port0 token0 ts (insert fld enc) (acc @ [?new]) = Inr (enc', acc')"
        by simp
      from Cons.IH [OF this] False Some t show ?thesis
        by (auto simp: field_init_sensor)
    qed
  qed
qed

text \<open>The loop over the registry entries of the configuration entry.\<close>

lemma remove_all_registry:
  "entity_registry (foldl (\<lambda>h entry. async_remove h (entity_id entry)) hass entries) =
     filter (\<lambda>e. entity_id e \<notin> entity_id ` set entries) (entity_registry hass)"
  by (induction entries arbitrary: hass) (auto simp: async_remove_def intro: filter_cong)

lemma remove_all_calls:
  "calls (foldl (\<lambda>h entry. async_remove h (entity_id entry)) hass entries) =
     calls hass @ map (\<lambda>entry. AsyncRemove (entity_id entry)) entries"
  by (induction entries arbitrary: hass) (simp_all add: async_remove_def)

lemma merged_config:
  "(if opts \<noteq> [] then config0 ++ map_of opts else config0) = config0 ++ map_of opts"
  by simp

lemma FIELD_MAP_storage_level: "FIELD_MAP ''Percent.Storage.Level'' = None"
  by (simp add: FIELD_MAP_def)

lemma FIELD_MAP_power_dc:
  "FIELD_MAP ''Power.DC.Total''
     = Some (mk_config ''mdi:solar-power'' ''Enpal Solar Production Power'' ''power'' ''W'')"
  by (simp add: FIELD_MAP_def)

lemma FIELD_MAP_temperature: "FIELD_MAP ''Temperature.Housing.Inside'' = None"
  by (simp add: FIELD_MAP_def)

lemma discover_shared_field:
  "discover ip0 port0 token0 shared_field_tables {} [] =
     Inr ({''Power.DC.Total''},
          [init_sensor ''Power.DC.Total'' ''inverter'' ''mdi:solar-power''
             ''Enpal Solar Production Power'' ip0 port0 token0 ''power'' ''W''])"
  by (simp add: shared_field_tables_def row_table_def FIELD_MAP_power_dc mk_config_def)

lemma discover_unknown_field:
  "discover ip0 port0 token0 unknown_field_tables {} [] =
     Inr ({''Temperature.Housing.Inside''}, [])"
  by (simp add: unknown_field_tables_def row_table_def FIELD_MAP_temperature)

section \<open>Claims\<close>

text \<open>
  C1. An update never raises to its caller: \<^verbatim>\<open>async_update\<close> always returns an entity;
  and whenever the body of the \<^verbatim>\<open>try\<close> raises (the query, the subscripts or the
  conversion), the entity returned has no current value and carries the check timestamp
  of this call under \<^verbatim>\<open>last_check\<close>. The exceptions are those of the class
  \<^verbatim>\<open>Exception\<close>, which the handler names.
\<close>

theorem async_update_never_raises:
  "\<exists>s'. async_update p env self = Inr s' \<and>
     (\<forall>e. try_update p env self = Inl e \<longrightarrow>
        attr_native_value s' = None \<and>
        attr_extra_state_attributes s' ''last_check'' = Some (AttrTime (now env)))"
  by (cases "try_update p env self") (simp_all add: async_update_def on_exception_def)

theorem async_update_never_raises_witness:
  "try_update no_str (env_of (Inl (ClientError ''connection refused''))) production_sensor
     = Inl (ClientError ''connection refused'') \<and>
   (\<exists>s'. async_update no_str (env_of (Inl (ClientError ''connection refused''))) production_sensor
            = Inr s' \<and>
          attr_native_value s' = None \<and>
          attr_extra_state_attributes s' ''last_check'' = Some (AttrTime noon))"
proof -
  let ?env = "env_of (Inl (ClientError ''connection refused''))"
  have raised: "try_update no_str ?env production_sensor = Inl (ClientError ''connection refused'')"
    by (simp add: try_update_def env_of_def)
  have clock: "now ?env = noon"
    by (simp add: env_of_def)
  from async_update_never_raises [of no_str ?env production_sensor] raised clock
  show ?thesis by auto
qed

text \<open>
  C4. When the query succeeds and returns no table, the update succeeds and the stored
  current value is the float 0.0, a present value.
\<close>

theorem zero_rows_store_zero:
  "query_result env = Inr [] \<Longrightarrow>
   \<exists>s'. async_update p env self = Inr s' \<and> attr_native_value s' = Some (Finite 0)"
  using try_update_zero_rows [of env p self]
  by (simp add: async_update_def native_value_store_reading)

theorem zero_rows_store_zero_witness:
  "query_result (env_of (Inr [])) = Inr [] \<and>
   (\<exists>s'. async_update no_str (env_of (Inr [])) power_sensor = Inr s' \<and>
          attr_native_value s' = Some (Finite 0))"
proof -
  have h: "query_result (env_of (Inr [])) = Inr []"
    by (simp add: env_of_def)
  from zero_rows_store_zero [OF h, of no_str power_sensor] h show ?thesis by simp
qed

text \<open>
  C3. After a successful update the state class is \<^verbatim>\<open>measurement\<close>, unless the unit of
  the entity is \<^verbatim>\<open>kWh\<close> or \<^verbatim>\<open>Wh\<close>: then it is \<^verbatim>\<open>total_increasing\<close>, and the
  attribute \<^verbatim>\<open>last_reset\<close> is the UTC date of the call at 00:00:00.
\<close>

theorem state_class_and_reset:
  assumes "try_update p env self = Inr s'"
  shows "async_update p env self = Inr s' \<and>
    (if unit self = ''kWh'' \<or> unit self = ''Wh''
     then attr_state_class s' = Some ''total_increasing'' \<and>
          attr_extra_state_attributes s' ''last_reset'' =
            Some (AttrTime \<lparr>year = year (utcnow env), month = month (utcnow env),
                            day = day (utcnow env), hour = 0, minute = 0, second = 0,
                            microsecond = 0\<rparr>)
     else attr_state_class s' = Some ''measurement'')"
proof -
  from assms obtain y where s': "s' = store_reading env self y"
    by (rule try_update_InrD)
  show ?thesis
    using async_update_success [OF assms]
    by (simp add: s' store_reading_def Let_def battery_icon_rule_keeps energy_rule_def
        midnight_fields)
qed

theorem state_class_and_reset_witness:
  "try_update no_str (env_of (Inr [])) production_sensor
     = Inr (store_reading (env_of (Inr [])) production_sensor (Finite 0)) \<and>
   attr_state_class (store_reading (env_of (Inr [])) production_sensor (Finite 0))
     = Some ''total_increasing'' \<and>
   attr_extra_state_attributes (store_reading (env_of (Inr [])) production_sensor (Finite 0))
       ''last_reset''
     = Some (AttrTime \<lparr>year = 2023, month = 5, day = 17, hour = 0, minute = 0, second = 0,
                       microsecond = 0\<rparr>)"
proof -
  have h: "try_update no_str (env_of (Inr [])) production_sensor
             = Inr (store_reading (env_of (Inr [])) production_sensor (Finite 0))"
    by (rule try_update_zero_rows) (simp add: env_of_def)
  have u: "unit production_sensor = ''kWh''"
    by (simp add: production_sensor_def init_sensor_def)
  have c: "utcnow (env_of (Inr [])) = noon"
    by (simp add: env_of_def)
  from state_class_and_reset [OF h] h u show ?thesis
    by (simp add: c noon_def)
qed

text \<open>
  C7. After a successful update of an entity whose field is \<^verbatim>\<open>Percent.Storage.Level\<close>,
  with stored value \<open>v\<close>: if \<open>10 * k \<le> v \<le> 10 * k + 9\<close> for a \<open>k\<close> from 1 to 9, the icon
  is the tier of \<open>k\<close>, \<^verbatim>\<open>mdi:battery-10\<close> to \<^verbatim>\<open>mdi:battery-90\<close>; if \<open>v\<close> is 100, the
  icon is \<^verbatim>\<open>mdi:battery\<close>.
\<close>

theorem battery_icon_tiers:
  assumes "try_update p env self = Inr s'" "field self = ''Percent.Storage.Level''"
    and "attr_native_value s' = Some v"
  shows "(\<forall>k\<in>{1..9}. float_ge v (10 * int k) \<and> float_le v (10 * int k + 9)
            \<longrightarrow> attr_icon s' = spec_tier_icon k) \<and>
         (float_eq v 100 \<longrightarrow> attr_icon s' = ''mdi:battery'')"
proof -
  from assms(1) obtain y where s': "s' = store_reading env self y"
    by (rule try_update_InrD)
  with assms(3) have y: "y = v"
    by (simp add: native_value_store_reading)
  from icon_store_reading_storage [OF assms(2), of env y] obtain s
    where "attr_icon s' = attr_icon (battery_icon_rule v s)"
    unfolding s' y by blast
  then show ?thesis
    by (simp add: tier_of_bucket) (simp add: icon_battery_icon_rule)
qed

theorem battery_icon_tiers_witness:
  "try_update no_str (env_of (Inr (one_row (PyFloat (Finite 55))))) storage_sensor
     = Inr (store_reading (env_of (Inr (one_row (PyFloat (Finite 55))))) storage_sensor (Finite 55)) \<and>
   field storage_sensor = ''Percent.Storage.Level'' \<and>
   (5::nat) \<in> {1..9} \<and> float_ge (Finite 55) (10 * int 5) \<and> float_le (Finite 55) (10 * int 5 + 9) \<and>
   attr_icon (store_reading (env_of (Inr (one_row (PyFloat (Finite 55))))) storage_sensor (Finite 55))
     = ''mdi:battery-50''"
proof -
  let ?env = "env_of (Inr (one_row (PyFloat (Finite 55))))"
  have h: "try_update no_str ?env storage_sensor = Inr (store_reading ?env storage_sensor (Finite 55))"
    by (rule try_update_one_row [OF _ py_round_55]) simp
  have f: "field storage_sensor = ''Percent.Storage.Level''"
    by (simp add: storage_sensor_def init_sensor_def)
  have v: "attr_native_value (store_reading ?env storage_sensor (Finite 55)) = Some (Finite 55)"
    by (rule native_value_store_reading)
  have k: "(5::nat) \<in> {1..9}" "float_ge (Finite 55) (10 * int 5)"
    "float_le (Finite 55) (10 * int 5 + 9)"
    by simp_all
  from battery_icon_tiers [OF h f v] k
  have "attr_icon (store_reading ?env storage_sensor (Finite 55)) = spec_tier_icon 5"
    by blast
  with h f k show ?thesis
    by (simp add: spec_tier_icon_values)
qed

text \<open>
  C8, as the claim words it, fails: an update that fails writes the key \<^verbatim>\<open>last_check\<close>
  alone. A fresh entity whose first query is refused has neither the key \<^verbatim>\<open>field\<close> nor
  the key \<^verbatim>\<open>measurement\<close> afterwards.
\<close>

theorem failed_update_leaves_field_key_absent:
  "async_update no_str (env_of (Inl (ClientError ''connection refused''))) production_sensor
     = Inr (on_exception (env_of (Inl (ClientError ''connection refused''))) production_sensor) \<and>
   attr_extra_state_attributes
     (on_exception (env_of (Inl (ClientError ''connection refused''))) production_sensor)
     ''field'' = None \<and>
   attr_extra_state_attributes
     (on_exception (env_of (Inl (ClientError ''connection refused''))) production_sensor)
     ''measurement'' = None"
  by (simp add: async_update_def try_update_def env_of_def on_exception_def
      production_sensor_def init_sensor_def)

text \<open>
  C8, amended. A successful update writes the keys \<^verbatim>\<open>last_check\<close>, \<^verbatim>\<open>field\<close> and
  \<^verbatim>\<open>measurement\<close>; it writes the key \<^verbatim>\<open>last_reset\<close> when the unit is \<^verbatim>\<open>kWh\<close> or
  \<^verbatim>\<open>Wh\<close> and leaves it as it was for every other unit; it leaves every further key as
  it was, and removes none. A failed update writes \<^verbatim>\<open>last_check\<close> and leaves every
  other key as it was.
\<close>

theorem attribute_keys_written:
  "(try_update p env self = Inr s' \<longrightarrow>
      async_update p env self = Inr s' \<and>
      attr_extra_state_attributes s' ''last_check'' = Some (AttrTime (now env)) \<and>
      attr_extra_state_attributes s' ''field'' = Some (AttrStr (field self)) \<and>
      attr_extra_state_attributes s' ''measurement'' = Some (AttrStr (measurement self)) \<and>
      (\<forall>k. k \<notin> {''last_check'', ''field'', ''measurement'', ''last_reset''} \<longrightarrow>
           attr_extra_state_attributes s' k = attr_extra_state_attributes self k) \<and>
      (if unit self = ''kWh'' \<or> unit self = ''Wh''
       then attr_extra_state_attributes s' ''last_reset'' =
              Some (AttrTime (midnight (utcnow env)))
       else attr_extra_state_attributes s' ''last_reset'' =
              attr_extra_state_attributes self ''last_reset'') \<and>
      dom (attr_extra_state_attributes self) \<subseteq> dom (attr_extra_state_attributes s')) \<and>
   (try_update p env self = Inl e \<longrightarrow>
      (\<exists>s''. async_update p env self = Inr s'' \<and>
         attr_extra_state_attributes s'' ''last_check'' = Some (AttrTime (now env)) \<and>
         (\<forall>k. k \<noteq> ''last_check'' \<longrightarrow>
              attr_extra_state_attributes s'' k = attr_extra_state_attributes self k)))"
proof (intro conjI impI)
  assume ok: "try_update p env self = Inr s'"
  then obtain y where s': "s' = store_reading env self y"
    by (rule try_update_InrD)
  show "async_update p env self = Inr s'"
    by (rule async_update_success [OF ok])
  show "attr_extra_state_attributes s' ''last_check'' = Some (AttrTime (now env))"
    and "attr_extra_state_attributes s' ''field'' = Some (AttrStr (field self))"
    and "attr_extra_state_attributes s' ''measurement'' = Some (AttrStr (measurement self))"
    by (simp_all add: s' attrs_store_reading Let_def)
  show "\<forall>k. k \<notin> {''last_check'', ''field'', ''measurement'', ''last_reset''} \<longrightarrow>
           attr_extra_state_attributes s' k = attr_extra_state_attributes self k"
    by (simp add: s' attrs_store_reading Let_def)
  show "if unit self = ''kWh'' \<or> unit self = ''Wh''
        then attr_extra_state_attributes s' ''last_reset'' =
               Some (AttrTime (midnight (utcnow env)))
        else attr_extra_state_attributes s' ''last_reset'' =
               attr_extra_state_attributes self ''last_reset''"
    by (simp add: s' attrs_store_reading Let_def)
  show "dom (attr_extra_state_attributes self) \<subseteq> dom (attr_extra_state_attributes s')"
    by (auto simp: s' attrs_store_reading Let_def)
next
  assume "try_update p env self = Inl e"
  then show "\<exists>s''. async_update p env self = Inr s'' \<and>
         attr_extra_state_attributes s'' ''last_check'' = Some (AttrTime (now env)) \<and>
         (\<forall>k. k \<noteq> ''last_check'' \<longrightarrow>
              attr_extra_state_attributes s'' k = attr_extra_state_attributes self k)"
    by (simp add: async_update_def on_exception_def)
qed

theorem attribute_keys_written_witness:
  "try_update no_str (env_of (Inr [])) power_sensor
     = Inr (store_reading (env_of (Inr [])) power_sensor (Finite 0)) \<and>
   attr_extra_state_attributes (store_reading (env_of (Inr [])) power_sensor (Finite 0)) ''field''
     = Some (AttrStr ''Power.DC.Total'') \<and>
   attr_extra_state_attributes (store_reading (env_of (Inr [])) power_sensor (Finite 0))
       ''last_reset''
     = None \<and>
   try_update no_str (env_of (Inl (ClientError ''connection refused''))) power_sensor
     = Inl (ClientError ''connection refused'') \<and>
   (\<exists>s''. async_update no_str (env_of (Inl (ClientError ''connection refused''))) power_sensor
             = Inr s'' \<and>
          attr_extra_state_attributes s'' ''last_check'' = Some (AttrTime noon) \<and>
          attr_extra_state_attributes s'' ''field'' = None)"
proof -
  let ?ok = "env_of (Inr [])" and ?ko = "env_of (Inl (ClientError ''connection refused''))"
  have h1: "try_update no_str ?ok power_sensor = Inr (store_reading ?ok power_sensor (Finite 0))"
    by (rule try_update_zero_rows) (simp add: env_of_def)
  have h2: "try_update no_str ?ko power_sensor = Inl (ClientError ''connection refused'')"
    by (simp add: try_update_def env_of_def)
  have f: "field power_sensor = ''Power.DC.Total''"
    "attr_extra_state_attributes power_sensor ''field'' = None"
    by (simp_all add: power_sensor_def init_sensor_def)
  have c: "now ?ko = noon"
    by (simp add: env_of_def)
  from attribute_keys_written
         [of no_str ?ok power_sensor "store_reading ?ok power_sensor (Finite 0)"] h1 f
  have a: "attr_extra_state_attributes (store_reading ?ok power_sensor (Finite 0)) ''field''
             = Some (AttrStr ''Power.DC.Total'')"
    by simp
  have u: "unit power_sensor = ''W''"
    "attr_extra_state_attributes power_sensor ''last_reset'' = None"
    by (simp_all add: power_sensor_def init_sensor_def)
  from attribute_keys_written
         [of no_str ?ok power_sensor "store_reading ?ok power_sensor (Finite 0)"] h1 u
  have b: "attr_extra_state_attributes (store_reading ?ok power_sensor (Finite 0)) ''last_reset''
             = None"
    by simp
  from attribute_keys_written
         [of no_str ?ko power_sensor _ "ClientError ''connection refused''"] h2
  obtain s'' where "async_update no_str ?ko power_sensor = Inr s''"
    "attr_extra_state_attributes s'' ''last_check'' = Some (AttrTime (now ?ko))"
    "\<forall>k. k \<noteq> ''last_check'' \<longrightarrow>
           attr_extra_state_attributes s'' k = attr_extra_state_attributes power_sensor k"
    by blast
  then have "\<exists>s''. async_update no_str ?ko power_sensor = Inr s'' \<and>
          attr_extra_state_attributes s'' ''last_check'' = Some (AttrTime noon) \<and>
          attr_extra_state_attributes s'' ''field'' = None"
    using f c by auto
  with h1 h2 a b show ?thesis by blast
qed



text \<open>
  C2, as the claim words it, fails: two results that carry the same field name under
  two measurements give no entity at all when the name is no key of the table.
\<close>

theorem shared_unknown_field_creates_nothing:
  "discover (PyStr ''192.168.178.50'') (PyInt 8086) (PyStr ''secret'') unknown_field_tables {} []
     = Inr ({''Temperature.Housing.Inside''}, []) \<and>
   spec_first_measurement ''Temperature.Housing.Inside'' unknown_field_tables = Some ''inverter'' \<and>
   spec_first_measurement ''Temperature.Housing.Inside'' (tl unknown_field_tables) = Some ''system''"
  by (simp add: discover_unknown_field) (simp add: unknown_field_tables_def row_table_def)

text \<open>
  C2, amended. When the loop runs to its end and the field name \<open>f\<close> is carried by some
  result, the entities created for \<open>f\<close> are: exactly one if \<open>f\<close> is a key of the table,
  made from the measurement of the first result that carries \<open>f\<close>, however many later
  results carry it; and none if \<open>f\<close> is no key of the table.
\<close>

theorem first_seen_wins:
  assumes "discover ip0 port0 token0 tables {} [] = Inr (enc, to_add)"
    and "spec_first_measurement f tables = Some m"
  shows "filter (\<lambda>s. field s = f) to_add =
           (case FIELD_MAP f of
              None \<Rightarrow> []
            | Some c \<Rightarrow>
                [init_sensor f m (icon c) (name c) ip0 port0 token0
                   (device_class c) (EnpalSensorConfig.unit c)])"
  using discover_filter_field [OF assms(1), of f] assms(2) by simp

theorem first_seen_wins_witness:
  "discover (PyStr ''192.168.178.50'') (PyInt 8086) (PyStr ''secret'') shared_field_tables {} []
     = Inr ({''Power.DC.Total''},
            [init_sensor ''Power.DC.Total'' ''inverter'' ''mdi:solar-power''
               ''Enpal Solar Production Power'' (PyStr ''192.168.178.50'') (PyInt 8086)
               (PyStr ''secret'') ''power'' ''W'']) \<and>
   spec_first_measurement ''Power.DC.Total'' shared_field_tables = Some ''inverter'' \<and>
   filter (\<lambda>s. field s = ''Power.DC.Total'')
     [init_sensor ''Power.DC.Total'' ''inverter'' ''mdi:solar-power''
        ''Enpal Solar Production Power'' (PyStr ''192.168.178.50'') (PyInt 8086)
        (PyStr ''secret'') ''power'' ''W'']
     = [init_sensor ''Power.DC.Total'' ''inverter'' ''mdi:solar-power''
          ''Enpal Solar Production Power'' (PyStr ''192.168.178.50'') (PyInt 8086)
          (PyStr ''secret'') ''power'' ''W'']"
proof -
  have m: "spec_first_measurement ''Power.DC.Total'' shared_field_tables = Some ''inverter''"
    by (simp add: shared_field_tables_def row_table_def)
  from first_seen_wins [OF discover_shared_field m, of "PyStr ''192.168.178.50''" "PyInt 8086"
      "PyStr ''secret''"] m
  show ?thesis
    by (simp add: discover_shared_field FIELD_MAP_power_dc mk_config_def)
qed

text \<open>
  C5. When the configuration, with the options merged over it, lacks the host IP, the
  port or the token, \<^verbatim>\<open>async_setup_entry\<close> returns having made no call: no query, no
  removal from the registry, no registration; the registry is as it was.
\<close>

theorem missing_parameter_aborts:
  assumes "data hass (entry_id config_entry) = Some config0"
    and "(config0 ++ map_of (options config_entry)) ''enpal_host_ip'' = None \<or>
         (config0 ++ map_of (options config_entry)) ''enpal_host_port'' = None \<or>
         (config0 ++ map_of (options config_entry)) ''enpal_token'' = None"
  shows "\<exists>hass'. async_setup_entry hass config_entry tables_result = Inr hass' \<and>
           calls hass' = calls hass \<and>
           entity_registry hass' = entity_registry hass"
  using assms unfolding async_setup_entry_def merged_config Let_def
  by (auto split: option.splits)

theorem missing_parameter_aborts_witness:
  "data (home config_without_token) (entry_id entry1) = Some config_without_token \<and>
   (config_without_token ++ map_of (options entry1)) ''enpal_token'' = None \<and>
   (\<exists>hass'. async_setup_entry (home config_without_token) entry1 (Inr shared_field_tables)
              = Inr hass' \<and>
            calls hass' = [] \<and> entity_registry hass' = old_registry)"
proof -
  have d: "data (home config_without_token) (entry_id entry1) = Some config_without_token"
    by (simp add: home_def entry1_def)
  have t: "(config_without_token ++ map_of (options entry1)) ''enpal_token'' = None"
    by (simp add: config_without_token_def entry1_def)
  from missing_parameter_aborts [OF d, of "Inr shared_field_tables"] t d
  show ?thesis
    by (simp add: home_def)
qed

text \<open>
  C6. A run that comes to the registration has, in this order, issued the query, removed
  every registry entry of the configuration entry, and only then handed the new entities
  over. At that moment the registry holds no entry of the configuration entry, and
  nothing that was not in it before.
\<close>

theorem old_entities_removed_before_add:
  assumes "data hass (entry_id config_entry) = Some config0"
    and "(config0 ++ map_of (options config_entry)) ''enpal_host_ip'' = Some ip0"
    and "(config0 ++ map_of (options config_entry)) ''enpal_host_port'' = Some port0"
    and "(config0 ++ map_of (options config_entry)) ''enpal_token'' = Some token0"
    and "discover ip0 port0 token0 tables {} [] = Inr (enc, to_add)"
  shows "\<exists>hass'. async_setup_entry hass config_entry (Inr tables) = Inr hass' \<and>
           calls hass' =
             calls hass @ [GetTables ip0 port0 token0] @
             map (\<lambda>entry. AsyncRemove (entity_id entry))
               (filter (\<lambda>e. config_entry_id e = entry_id config_entry) (entity_registry hass)) @
             [AsyncAddEntities to_add True] \<and>
           (\<forall>e\<in>set (entity_registry hass'). config_entry_id e \<noteq> entry_id config_entry) \<and>
           set (entity_registry hass') \<subseteq> set (entity_registry hass)"
  using assms unfolding async_setup_entry_def merged_config Let_def
  by (auto simp: async_add_entities_def remove_all_registry remove_all_calls
      async_entries_for_config_entry_def)

theorem old_entities_removed_before_add_witness:
  "\<exists>hass'. async_setup_entry (home full_config) entry1 (Inr shared_field_tables) = Inr hass' \<and>
     calls hass' =
       [GetTables (PyStr ''192.168.178.50'') (PyInt 8086) (PyStr ''secret''),
        AsyncRemove ''sensor.enpal_solar_production_power'',
        AsyncAddEntities
          [init_sensor ''Power.DC.Total'' ''inverter'' ''mdi:solar-power''
             ''Enpal Solar Production Power'' (PyStr ''192.168.178.50'') (PyInt 8086)
             (PyStr ''secret'') ''power'' ''W''] True] \<and>
     (\<forall>e\<in>set (entity_registry hass'). config_entry_id e \<noteq> ''entry1'')"
proof -
  have d: "data (home full_config) (entry_id entry1) = Some full_config"
    by (simp add: home_def entry1_def)
  have c: "(full_config ++ map_of (options entry1)) ''enpal_host_ip'' = Some (PyStr ''192.168.178.50'')"
    "(full_config ++ map_of (options entry1)) ''enpal_host_port'' = Some (PyInt 8086)"
    "(full_config ++ map_of (options entry1)) ''enpal_token'' = Some (PyStr ''secret'')"
    by (simp_all add: full_config_def entry1_def)
  from old_entities_removed_before_add [OF d c discover_shared_field]
  show ?thesis
    by (auto simp: home_def old_registry_def entry1_def)
qed

text \<open>
  C10. \<^verbatim>\<open>Percent.Storage.Level\<close> is no key of the table; every entity that the loop of
  Field Discovery creates has a field that is a key of the table, hence another field;
  and an update of such an entity, failed or not, leaves its icon and its field as they
  were: the battery icon rule never runs for a discovered entity.
\<close>

theorem storage_level_rule_unreachable:
  "FIELD_MAP ''Percent.Storage.Level'' = None \<and>
   (discover ip0 port0 token0 tables {} [] = Inr (enc, to_add) \<longrightarrow>
      (\<forall>s\<in>set to_add.
         FIELD_MAP (field s) \<noteq> None \<and> field s \<noteq> ''Percent.Storage.Level'' \<and>
         (\<forall>p env s'. async_update p env s = Inr s' \<longrightarrow>
            attr_icon s' = attr_icon s \<and> field s' = field s)))"
proof (intro conjI impI ballI allI)
  show none: "FIELD_MAP ''Percent.Storage.Level'' = None"
    by (rule FIELD_MAP_storage_level)
  fix s
  assume run: "discover ip0 port0 token0 tables {} [] = Inr (enc, to_add)"
    and s: "s \<in> set to_add"
  from discover_known_fields [OF run] s show known: "FIELD_MAP (field s) \<noteq> None"
    by simp
  with none show other: "field s \<noteq> ''Percent.Storage.Level''"
    by auto
  fix p env s'
  assume "async_update p env s = Inr s'"
  from async_update_other_field [OF other this]
  show "attr_icon s' = attr_icon s" and "field s' = field s"
    by simp_all
qed

theorem storage_level_rule_unreachable_witness:
  "discover (PyStr ''192.168.178.50'') (PyInt 8086) (PyStr ''secret'') shared_field_tables {} []
     = Inr ({''Power.DC.Total''}, [power_sensor]) \<and>
   power_sensor \<in> set [power_sensor] \<and>
   field power_sensor \<noteq> ''Percent.Storage.Level'' \<and>
   async_update no_str (env_of (Inr [])) power_sensor
     = Inr (store_reading (env_of (Inr [])) power_sensor (Finite 0)) \<and>
   attr_icon (store_reading (env_of (Inr [])) power_sensor (Finite 0)) = ''mdi:solar-power''"
proof -
  have run: "discover (PyStr ''192.168.178.50'') (PyInt 8086) (PyStr ''secret'')
               shared_field_tables {} [] = Inr ({''Power.DC.Total''}, [power_sensor])"
    by (simp add: discover_shared_field power_sensor_def)
  have upd: "async_update no_str (env_of (Inr [])) power_sensor
               = Inr (store_reading (env_of (Inr [])) power_sensor (Finite 0))"
    by (rule async_update_success, rule try_update_zero_rows) (simp add: env_of_def)
  have icon: "attr_icon power_sensor = ''mdi:solar-power''"
    by (simp add: power_sensor_def init_sensor_def)
  from storage_level_rule_unreachable
         [of "PyStr ''192.168.178.50''" "PyInt 8086" "PyStr ''secret''" shared_field_tables
             "{''Power.DC.Total''}" "[power_sensor]"] run upd icon
  show ?thesis
    by auto
qed

end
